theory Spec2Isabelle
  imports Main "HOL-Library.Word"
begin

unbundle bit_operations_syntax

section \<open>Machine types and abnormal outcomes\<close>

text \<open>
  The model is of an LP64 build: \<^verbatim>\<open>void *\<close>, \<^verbatim>\<open>std::size_t\<close> and \<^verbatim>\<open>long\<close> are
  64 bits wide, \<^verbatim>\<open>uint\<close> and \<^verbatim>\<open>int\<close> 32 bits. Arithmetic on them is arithmetic of
  \<open>64 word\<close> and \<open>32 word\<close>, which wraps as the unsigned C++ arithmetic does. The null
  pointer is the address \<open>0\<close>.
\<close>

type_synonym ptr = "64 word"
type_synonym size_t = "64 word"
type_synonym uint = "32 word"

text \<open>
  Every way a call can end other than by returning: the two exceptions thrown in the
  sources (\<^verbatim>\<open>std::runtime_error\<close> with its message, \<^verbatim>\<open>std::bad_alloc\<close>), a failed
  \<^verbatim>\<open>assert\<close>, undefined behaviour (an index outside the vector, the release of a
  block that is not live), and a call that no overload accepts, which stops the
  instantiation of the template that holds it.
\<close>

datatype failure =
    runtime_error string
  | bad_alloc
  | assertion_failed
  | undefined_behaviour
  | no_matching_function

section \<open>Aligned allocation (utilities/malloc\_aligned.hpp)\<close>

text \<open>
  The C heap as the allocation functions see it: the blocks handed out and not yet
  released, by their start address, and the pointer-sized cells written through a
  \<^verbatim>\<open>void **\<close>, by their address.
\<close>

record c_heap =
  live :: "ptr set"
  cells :: "ptr \<Rightarrow> ptr"

text \<open>
  \<^verbatim>\<open>free(p)\<close>: nothing for the null pointer, the release of a live block, and
  undefined behaviour for any other pointer.
\<close>

definition c_free :: "ptr \<Rightarrow> c_heap \<Rightarrow> failure option \<times> c_heap" where
  "c_free p st =
     (if p = 0 then (None, st)
      else if p \<in> live st then (None, st\<lparr>live := live st - {p}\<rparr>)
      else (Some undefined_behaviour, st))"

text \<open>
  The platform's allocation calls are parameters of the backends, functions from the
  arguments of the call to what the platform answers: \<^verbatim>\<open>posix_memalign\<close> answers a
  status and the pointer it stored, \<^verbatim>\<open>malloc\<close> a pointer that is null on failure.
  Both are C functions and cannot throw.
  \<^verbatim>\<open>tbb::cache_aligned_allocator::allocate\<close> is a C++ library call that reports failure
  by throwing \<^verbatim>\<open>std::bad_alloc\<close>, so its answer is a pointer or an exception. Every
  backend returns how the call ended (\<open>Inl\<close>: an exception left it, \<open>Inr\<close>: it returned
  this pointer) and the heap it left.
\<close>

text \<open>The backend on \<^verbatim>\<open>posix_memalign\<close>.\<close>

definition malloc_memory_alignment :: size_t where
  "malloc_memory_alignment = 64"

definition malloc_aligned_posix ::
  "(size_t \<Rightarrow> size_t \<Rightarrow> int \<times> ptr) \<Rightarrow> size_t \<Rightarrow> c_heap \<Rightarrow> (failure + ptr) \<times> c_heap" where
  "malloc_aligned_posix posix_memalign nbytes st =
     (case posix_memalign malloc_memory_alignment nbytes of
        (status, ret) \<Rightarrow>
          if status = 0 then (Inr ret, st\<lparr>live := insert ret (live st)\<rparr>)
          else (Inr 0, st))"

definition free_aligned_posix :: "ptr \<Rightarrow> c_heap \<Rightarrow> failure option \<times> c_heap" where
  "free_aligned_posix p st = c_free p st"

text \<open>
  The backend on the TBB allocator:
  \<^verbatim>\<open>return static_cast<void*>(ca_alloc.allocate(nbytes));\<close> with no handler around it.
\<close>

definition malloc_aligned_tbb ::
  "(size_t \<Rightarrow> failure + ptr) \<Rightarrow> size_t \<Rightarrow> c_heap \<Rightarrow> (failure + ptr) \<times> c_heap" where
  "malloc_aligned_tbb allocate nbytes st =
     (case allocate nbytes of
        Inl e \<Rightarrow> (Inl e, st)
      | Inr p \<Rightarrow> (Inr p, st\<lparr>live := insert p (live st)\<rparr>))"

text \<open>
  The manual fallback. \<^verbatim>\<open>VECTORALIGNMENT\<close> is in bits; \<^verbatim>\<open>sizeof(void *)\<close> is 8. The
  request \<^verbatim>\<open>nbytes + (VECTORALIGNMENT/8-1) + sizeof(void *)\<close> is a \<^verbatim>\<open>size_t\<close> sum and
  wraps.
\<close>

definition VECTORALIGNMENT :: size_t where
  "VECTORALIGNMENT = 128"

definition sizeof_void_ptr :: size_t where
  "sizeof_void_ptr = 8"

definition malloc_aligned_fallback ::
  "(size_t \<Rightarrow> ptr) \<Rightarrow> size_t \<Rightarrow> c_heap \<Rightarrow> (failure + ptr) \<times> c_heap" where
  "malloc_aligned_fallback malloc nbytes st =
     (let vec = malloc (nbytes + (VECTORALIGNMENT div 8 - 1) + sizeof_void_ptr) in
      if vec \<noteq> 0 then
        let alignment = (vec + sizeof_void_ptr) AND (VECTORALIGNMENT div 8 - 1);
            ret = vec + sizeof_void_ptr
                    + (if alignment = 0 then 0 else VECTORALIGNMENT div 8 - alignment)
        in (Inr ret,
            st\<lparr>live := insert vec (live st),
               cells := (cells st)(ret - sizeof_void_ptr := vec)\<rparr>)
      else (Inr 0, st))"

definition free_aligned_fallback :: "ptr \<Rightarrow> c_heap \<Rightarrow> failure option \<times> c_heap" where
  "free_aligned_fallback p st =
     (let ori = cells st (p - sizeof_void_ptr) in c_free ori st)"

text \<open>
  \<^verbatim>\<open>calloc_aligned\<close>, over the backend that was compiled in; \<^verbatim>\<open>std::memset\<close> is a
  parameter, since the heap above does not hold bytes.
\<close>

definition calloc_aligned ::
  "(size_t \<Rightarrow> c_heap \<Rightarrow> (failure + ptr) \<times> c_heap) \<Rightarrow> (ptr \<Rightarrow> int \<Rightarrow> size_t \<Rightarrow> c_heap \<Rightarrow> c_heap)
     \<Rightarrow> size_t \<Rightarrow> c_heap \<Rightarrow> (failure + ptr) \<times> c_heap" where
  "calloc_aligned malloc_aligned memset nbytes st =
     (case malloc_aligned nbytes st of
        (Inl e, st') \<Rightarrow> (Inl e, st')
      | (Inr ret, st') \<Rightarrow>
          if ret \<noteq> 0 then (Inr ret, memset ret 0 nbytes st') else (Inr ret, st'))"

section \<open>The sample buffer (server/buffer\_manager.hpp)\<close>

text \<open>
  \<^verbatim>\<open>struct buffer_wrapper\<close>, field by field. The fields \<^verbatim>\<open>frames_\<close>,
  \<^verbatim>\<open>channels_\<close> and \<^verbatim>\<open>sample_rate_\<close> are written without the trailing underscore,
  which a name cannot end with here. \<open>sample_rate\<close> is the bit pattern of the
  \<^verbatim>\<open>int\<close>.
\<close>

record buffer_wrapper =
  data :: ptr
  frames :: size_t
  channels :: uint
  sample_rate :: "32 word"

text \<open>
  Sample storage. A pointer into sample storage is a block (the address the allocator
  returned, which is what \<open>data\<close> holds) and an element offset; \<open>h p i\<close> is the
  object \<^verbatim>\<open>p[i]\<close>. Offsets are natural numbers, so an access past the end of a block
  is recorded where it lands instead of wrapping around. The sample type \<open>'a\<close> stands
  for \<^verbatim>\<open>sample_t\<close> (\<^verbatim>\<open>float\<close>): the operations only copy samples.
\<close>

type_synonym 'a samples = "ptr \<Rightarrow> nat \<Rightarrow> 'a"

definition write_sample :: "'a samples \<Rightarrow> ptr \<Rightarrow> nat \<Rightarrow> 'a \<Rightarrow> 'a samples" where
  "write_sample h p i v = h(p := (h p)(i := v))"

text \<open>The constructor: \<^verbatim>\<open>data(0), frames_(0), channels_(0), sample_rate_(0)\<close>.\<close>

definition buffer_wrapper_init :: buffer_wrapper where
  "buffer_wrapper_init = \<lparr>data = 0, frames = 0, channels = 0, sample_rate = 0\<rparr>"

text \<open>
  Modelled from the spec: \<^verbatim>\<open>buffer_wrapper::allocate\<close>, which the header only declares
  (its body is not among the sources). The spec: the buffer must be unallocated, a
  breach being a programmer defect that may abort; storage for
  \<open>frame_count \<times> channel_count\<close> samples is requested from the aligned allocator,
  uninitialized; when the allocator returns null the buffer stays unallocated and the
  error "could not allocate buffer" is signalled; otherwise \<open>data\<close>, \<open>frames_\<close> and
  \<open>channels_\<close> are set. The typed allocator \<^verbatim>\<open>malloc_aligned<sample_t>\<close> is the
  parameter, from the number of samples to the pointer it returns.
\<close>

definition buffer_wrapper_allocate ::
  "(size_t \<Rightarrow> ptr) \<Rightarrow> buffer_wrapper \<Rightarrow> size_t \<Rightarrow> uint \<Rightarrow> failure option \<times> buffer_wrapper" where
  "buffer_wrapper_allocate malloc_aligned_samples b n_frames n_channels =
     (if data b \<noteq> 0 then (Some assertion_failed, b)
      else
        let p = malloc_aligned_samples (n_frames * ucast n_channels) in
        if p = 0 then (Some (runtime_error ''could not allocate buffer''), b)
        else (None, b\<lparr>data := p, frames := n_frames, channels := n_channels\<rparr>))"

text \<open>
  \<^verbatim>\<open>buffer_wrapper::free\<close>. The second component lists the pointers handed to
  \<^verbatim>\<open>free_aligned\<close>, in order.
\<close>

definition buffer_wrapper_free :: "buffer_wrapper \<Rightarrow> buffer_wrapper \<times> ptr list" where
  "buffer_wrapper_free b =
     (if data b \<noteq> 0
      then (b\<lparr>data := 0, frames := 0, channels := 0\<rparr>, [data b])
      else (b, []))"

text \<open>
  Modelled from the spec: \<^verbatim>\<open>zerovec\<close> of \<^verbatim>\<open>simd/simd_memory.hpp\<close>, which is not
  among the sources. The spec calls it a vectorized zero fill and leaves its kernel
  out of scope; the contract taken here is that \<^verbatim>\<open>zerovec(dest, n)\<close> sets the \<open>n\<close>
  samples \<^verbatim>\<open>dest[0]\<close> to \<^verbatim>\<open>dest[n - 1]\<close> to zero and touches nothing else.
\<close>

definition zerovec :: "'a::zero samples \<Rightarrow> ptr \<Rightarrow> size_t \<Rightarrow> 'a samples" where
  "zerovec h dest n = h(dest := (\<lambda>i. if i < unat n then 0 else h dest i))"

text \<open>
  \<^verbatim>\<open>buffer_wrapper::zero\<close>: \<^verbatim>\<open>assert (data); zerovec(data, frames_);\<close>. The result is
  how the call ended (\<open>None\<close>: it returned) and the storage it left.
\<close>

definition buffer_wrapper_zero ::
  "buffer_wrapper \<Rightarrow> 'a::zero samples \<Rightarrow> failure option \<times> 'a samples" where
  "buffer_wrapper_zero b h =
     (if data b = 0 then (Some assertion_failed, h)
      else (None, zerovec h (data b) (frames b)))"

text \<open>
  The arrays a caller passes by pointer (\<^verbatim>\<open>const size_t * indices\<close>,
  \<^verbatim>\<open>const float_type * values\<close>) are functions from the element number to the element:
  the callee is given no length and reads the elements below \<open>count\<close>. The conversion
  \<^verbatim>\<open>sample_t(values[i])\<close> from the caller's \<^verbatim>\<open>float_type\<close> is the parameter \<open>cv\<close>.

  The loops \<^verbatim>\<open>for (int i = 0; i != count; ++i)\<close> are recursions on the number of
  iterations done: \<open>loop n h\<close> is the storage after the iterations \<open>i = 0, ..., n - 1\<close>
  from \<open>h\<close>. The counter is an \<^verbatim>\<open>int\<close> that the comparison converts to unsigned, so
  the loop body runs \<open>count\<close> times; the iterations are counted here as natural
  numbers, which is the counter's value for every \<open>count\<close> up to \<^verbatim>\<open>INT_MAX\<close>, the
  range in which \<^verbatim>\<open>++i\<close> does not overflow.
\<close>

text \<open>The scatter form \<^verbatim>\<open>set_samples(count, indices, values)\<close>.\<close>

primrec set_samples_scatter_loop ::
  "('v \<Rightarrow> 'a) \<Rightarrow> buffer_wrapper \<Rightarrow> (nat \<Rightarrow> size_t) \<Rightarrow> (nat \<Rightarrow> 'v) \<Rightarrow> nat \<Rightarrow> 'a samples
     \<Rightarrow> 'a samples" where
  "set_samples_scatter_loop cv b indices vals 0 h = h"
| "set_samples_scatter_loop cv b indices vals (Suc i) h =
     (let h' = set_samples_scatter_loop cv b indices vals i h;
          index = indices i
      in if index < frames b
         then write_sample h' (data b) (unat index) (cv (vals i))
         else h')"

definition buffer_wrapper_set_samples_scatter ::
  "('v \<Rightarrow> 'a) \<Rightarrow> buffer_wrapper \<Rightarrow> uint \<Rightarrow> (nat \<Rightarrow> size_t) \<Rightarrow> (nat \<Rightarrow> 'v) \<Rightarrow> 'a samples
     \<Rightarrow> 'a samples" where
  "buffer_wrapper_set_samples_scatter cv b count indices vals h =
     set_samples_scatter_loop cv b indices vals (unat count) h"

text \<open>
  The contiguous form \<^verbatim>\<open>set_samples(position, count, values)\<close>. \<^verbatim>\<open>base\<close> is
  \<^verbatim>\<open>data + position\<close>, so \<^verbatim>\<open>base[i]\<close> is the sample at offset \<open>position + i\<close> of the
  block. \<^verbatim>\<open>avail\<close> is a \<^verbatim>\<open>size_t\<close> difference and wraps; the minimum is taken in
  \<^verbatim>\<open>size_t\<close> and assigned back to the \<^verbatim>\<open>uint\<close>.
\<close>

primrec set_samples_contiguous_loop ::
  "('v \<Rightarrow> 'a) \<Rightarrow> buffer_wrapper \<Rightarrow> size_t \<Rightarrow> (nat \<Rightarrow> 'v) \<Rightarrow> nat \<Rightarrow> 'a samples
     \<Rightarrow> 'a samples" where
  "set_samples_contiguous_loop cv b position vals 0 h = h"
| "set_samples_contiguous_loop cv b position vals (Suc i) h =
     write_sample (set_samples_contiguous_loop cv b position vals i h)
       (data b) (unat position + i) (cv (vals i))"

definition buffer_wrapper_set_samples_contiguous ::
  "('v \<Rightarrow> 'a) \<Rightarrow> buffer_wrapper \<Rightarrow> size_t \<Rightarrow> uint \<Rightarrow> (nat \<Rightarrow> 'v) \<Rightarrow> 'a samples
     \<Rightarrow> 'a samples" where
  "buffer_wrapper_set_samples_contiguous cv b position count vals h =
     (let avail = frames b - position;
          count' = (ucast (min (ucast count :: size_t) avail) :: uint)
      in set_samples_contiguous_loop cv b position vals (unat count') h)"

text \<open>\<^verbatim>\<open>fill_samples(position, count, value)\<close>: the same, with one value.\<close>

primrec fill_samples_loop ::
  "buffer_wrapper \<Rightarrow> size_t \<Rightarrow> 'a \<Rightarrow> nat \<Rightarrow> 'a samples \<Rightarrow> 'a samples" where
  "fill_samples_loop b position val 0 h = h"
| "fill_samples_loop b position val (Suc i) h =
     write_sample (fill_samples_loop b position val i h) (data b) (unat position + i) val"

definition buffer_wrapper_fill_samples ::
  "('v \<Rightarrow> 'a) \<Rightarrow> buffer_wrapper \<Rightarrow> size_t \<Rightarrow> uint \<Rightarrow> 'v \<Rightarrow> 'a samples \<Rightarrow> 'a samples" where
  "buffer_wrapper_fill_samples cv b position count v h =
     (let avail = frames b - position;
          count' = (ucast (min (ucast count :: size_t) avail) :: uint);
          val = cv v
      in fill_samples_loop b position val (unat count') h)"

text \<open>
  The overload set \<^verbatim>\<open>buffer_wrapper::set_samples\<close>. A call is resolved by the number
  and the kinds of its arguments: an integral argument (\<^verbatim>\<open>uint\<close> or \<^verbatim>\<open>size_t\<close>,
  converted to the parameter's type), a pointer to indices, a pointer to values. The
  struct declares the two three-parameter forms above and nothing else, so any other
  argument list matches no function.
\<close>

datatype 'v argument =
    arg_integral size_t
  | arg_indices "nat \<Rightarrow> size_t"
  | arg_values "nat \<Rightarrow> 'v"

fun buffer_wrapper_set_samples ::
  "('v \<Rightarrow> 'a) \<Rightarrow> buffer_wrapper \<Rightarrow> 'v argument list \<Rightarrow> 'a samples
     \<Rightarrow> failure option \<times> 'a samples" where
  "buffer_wrapper_set_samples cv b [arg_integral count, arg_indices indices, arg_values vals] h =
     (None, buffer_wrapper_set_samples_scatter cv b (ucast count) indices vals h)"
| "buffer_wrapper_set_samples cv b [arg_integral position, arg_integral count, arg_values vals] h =
     (None, buffer_wrapper_set_samples_contiguous cv b position (ucast count) vals h)"
| "buffer_wrapper_set_samples cv b args h = (Some no_matching_function, h)"

section \<open>The buffer table\<close>

text \<open>
  \<^verbatim>\<open>class buffer_manager\<close> holds one vector of buffers, built with \<open>max_buffers\<close>
  copies of a fresh buffer.
\<close>

record buffer_manager =
  buffers :: "buffer_wrapper list"

definition buffer_manager_init :: "uint \<Rightarrow> buffer_manager" where
  "buffer_manager_init max_buffers =
     \<lparr>buffers = replicate (unat max_buffers) buffer_wrapper_init\<rparr>"

text \<open>
  \<^verbatim>\<open>buffers[index]\<close> is \<^verbatim>\<open>std::vector::operator[]\<close>, which does not check its
  index: outside the vector the behaviour is undefined.
\<close>

definition slot :: "buffer_manager \<Rightarrow> int \<Rightarrow> buffer_wrapper option" where
  "slot m index =
     (if 0 \<le> index \<and> index < int (length (buffers m))
      then Some (buffers m ! nat index) else None)"

text \<open>
  The two guards. Each returns how the call ended (\<open>None\<close>: it returned) and the
  manager as the call left it.
\<close>

definition check_buffer_unused ::
  "buffer_manager \<Rightarrow> int \<Rightarrow> failure option \<times> buffer_manager" where
  "check_buffer_unused m index =
     (case slot m index of
        None \<Rightarrow> (Some undefined_behaviour, m)
      | Some b \<Rightarrow>
          if data b \<noteq> 0 then (Some (runtime_error ''buffer already in use''), m)
          else (None, m))"

definition check_buffer_in_use ::
  "buffer_manager \<Rightarrow> int \<Rightarrow> failure option \<times> buffer_manager" where
  "check_buffer_in_use m index =
     (case slot m index of
        None \<Rightarrow> (Some undefined_behaviour, m)
      | Some b \<Rightarrow>
          if data b = 0 then (Some (runtime_error ''buffer is not in use''), m)
          else (None, m))"

text \<open>
  The sample operations of the table. Each applies \<open>check_buffer_in_use\<close> and, when
  that returns, calls the buffer at the index; an exception of the guard ends the
  call. The result is how the call ended, the manager and the sample storage. The
  contiguous \<^verbatim>\<open>set_samples\<close> calls
  \<^verbatim>\<open>buffers[index].set_samples(count, position, count, values)\<close>, with four arguments;
  \<^verbatim>\<open>fill_samples\<close> calls \<^verbatim>\<open>buffers[index].fill_samples(position, count, value)\<close>.
\<close>

definition buffer_manager_set_samples_scatter ::
  "('v \<Rightarrow> 'a) \<Rightarrow> buffer_manager \<Rightarrow> int \<Rightarrow> uint \<Rightarrow> (nat \<Rightarrow> size_t) \<Rightarrow> (nat \<Rightarrow> 'v)
     \<Rightarrow> 'a samples \<Rightarrow> failure option \<times> buffer_manager \<times> 'a samples" where
  "buffer_manager_set_samples_scatter cv m index count indices vals h =
     (case check_buffer_in_use m index of
        (Some e, m') \<Rightarrow> (Some e, m', h)
      | (None, m') \<Rightarrow>
          (case slot m' index of
             None \<Rightarrow> (Some undefined_behaviour, m', h)
           | Some b \<Rightarrow>
               (case buffer_wrapper_set_samples cv b
                       [arg_integral (ucast count), arg_indices indices, arg_values vals] h of
                  (r, h') \<Rightarrow> (r, m', h'))))"

definition buffer_manager_set_samples_contiguous ::
  "('v \<Rightarrow> 'a) \<Rightarrow> buffer_manager \<Rightarrow> int \<Rightarrow> size_t \<Rightarrow> uint \<Rightarrow> (nat \<Rightarrow> 'v)
     \<Rightarrow> 'a samples \<Rightarrow> failure option \<times> buffer_manager \<times> 'a samples" where
  "buffer_manager_set_samples_contiguous cv m index position count vals h =
     (case check_buffer_in_use m index of
        (Some e, m') \<Rightarrow> (Some e, m', h)
      | (None, m') \<Rightarrow>
          (case slot m' index of
             None \<Rightarrow> (Some undefined_behaviour, m', h)
           | Some b \<Rightarrow>
               (case buffer_wrapper_set_samples cv b
                       [arg_integral (ucast count), arg_integral position,
                        arg_integral (ucast count), arg_values vals] h of
                  (r, h') \<Rightarrow> (r, m', h'))))"

definition buffer_manager_fill_samples ::
  "('v \<Rightarrow> 'a) \<Rightarrow> buffer_manager \<Rightarrow> int \<Rightarrow> size_t \<Rightarrow> uint \<Rightarrow> 'v
     \<Rightarrow> 'a samples \<Rightarrow> failure option \<times> buffer_manager \<times> 'a samples" where
  "buffer_manager_fill_samples cv m index position count v h =
     (case check_buffer_in_use m index of
        (Some e, m') \<Rightarrow> (Some e, m', h)
      | (None, m') \<Rightarrow>
          (case slot m' index of
             None \<Rightarrow> (Some undefined_behaviour, m', h)
           | Some b \<Rightarrow> (None, m', buffer_wrapper_fill_samples cv b position count v h)))"

text \<open>
  The state of a slot as the guards read it: a slot is Allocated when its \<open>data\<close>
  pointer is not null, and Free otherwise.
\<close>

datatype slot_state = Free | Allocated

definition slot_state_of :: "buffer_wrapper \<Rightarrow> slot_state" where
  "slot_state_of b = (if data b \<noteq> 0 then Allocated else Free)"

section \<open>Releasing a buffer\<close>

text \<open>
  C10. \<open>buffer_wrapper::free\<close> on an allocated buffer hands \<open>data\<close> to
  \<open>free_aligned\<close> once, sets \<open>data\<close> to null and \<open>frames\<close> and \<open>channels\<close> to zero,
  and leaves \<open>sample_rate\<close> at the value it held; the record has no other field.
\<close>

theorem free_keeps_sample_rate:
  assumes "data b \<noteq> 0"
  shows "buffer_wrapper_free b =
           (\<lparr>data = 0, frames = 0, channels = 0, sample_rate = sample_rate b\<rparr>,
            [data b])"
  using assms by (simp add: buffer_wrapper_free_def)

theorem free_keeps_sample_rate_witness:
  "data \<lparr>data = 4096, frames = 512, channels = 2, sample_rate = 44100\<rparr> \<noteq> 0
   \<and> buffer_wrapper_free \<lparr>data = 4096, frames = 512, channels = 2, sample_rate = 44100\<rparr>
       = (\<lparr>data = 0, frames = 0, channels = 0, sample_rate = 44100\<rparr>, [4096])"
  using free_keeps_sample_rate
          [of "\<lparr>data = 4096, frames = 512, channels = 2, sample_rate = 44100\<rparr>"]
  by simp

text \<open>
  C9. A freshly constructed buffer that is allocated and then freed is the freshly
  constructed buffer again, whatever the frame and channel counts and whether or not
  the allocation succeeded; the same holds from any unallocated buffer. When the
  allocation succeeds the buffer is allocated in between and \<open>free\<close> hands exactly the
  allocated pointer to \<open>free_aligned\<close>; when it fails the error is signalled and the
  buffer is untouched. \<open>free\<close> on an unallocated buffer changes nothing and releases
  nothing, so a second \<open>free\<close> is a no-op.
\<close>

theorem allocate_free_roundtrip:
  "fst (buffer_wrapper_free (snd (buffer_wrapper_allocate alloc buffer_wrapper_init n_frames n_channels)))
     = buffer_wrapper_init
   \<and> (data b = 0 \<and> frames b = 0 \<and> channels b = 0 \<longrightarrow>
        fst (buffer_wrapper_free (snd (buffer_wrapper_allocate alloc b n_frames n_channels))) = b)
   \<and> (alloc (n_frames * ucast n_channels) \<noteq> 0 \<longrightarrow>
        buffer_wrapper_allocate alloc buffer_wrapper_init n_frames n_channels
          = (None, \<lparr>data = alloc (n_frames * ucast n_channels), frames = n_frames,
                    channels = n_channels, sample_rate = 0\<rparr>)
        \<and> snd (buffer_wrapper_free
                 (snd (buffer_wrapper_allocate alloc buffer_wrapper_init n_frames n_channels)))
            = [alloc (n_frames * ucast n_channels)])
   \<and> (alloc (n_frames * ucast n_channels) = 0 \<longrightarrow>
        buffer_wrapper_allocate alloc buffer_wrapper_init n_frames n_channels
          = (Some (runtime_error ''could not allocate buffer''), buffer_wrapper_init))
   \<and> (data b = 0 \<longrightarrow> buffer_wrapper_free b = (b, []))
   \<and> buffer_wrapper_free (fst (buffer_wrapper_free b)) = (fst (buffer_wrapper_free b), [])"
  by (cases b) (simp add: buffer_wrapper_allocate_def buffer_wrapper_free_def buffer_wrapper_init_def Let_def)

theorem allocate_free_roundtrip_witness:
  "buffer_wrapper_allocate (\<lambda>n. 4096) buffer_wrapper_init 512 2
     = (None, \<lparr>data = 4096, frames = 512, channels = 2, sample_rate = 0\<rparr>)
   \<and> buffer_wrapper_free \<lparr>data = 4096, frames = 512, channels = 2, sample_rate = 0\<rparr>
     = (buffer_wrapper_init, [4096])
   \<and> buffer_wrapper_free buffer_wrapper_init = (buffer_wrapper_init, [])"
  using allocate_free_roundtrip [of "\<lambda>n. 4096" 512 2 buffer_wrapper_init]
  by (simp add: buffer_wrapper_init_def buffer_wrapper_free_def)

section \<open>The guards of the table\<close>

text \<open>
  C5. For an index inside the table, \<open>check_buffer_unused\<close> ends with the
  "buffer already in use" error exactly when the slot is Allocated, and
  \<open>check_buffer_in_use\<close> ends with the "buffer is not in use" error exactly when
  the slot is Free; otherwise each returns normally, and in every case the manager is
  left as it was.
\<close>

theorem guards_signal_iff:
  assumes "0 \<le> index" and "index < int (length (buffers m))"
  shows "(fst (check_buffer_unused m index) = Some (runtime_error ''buffer already in use'')
            \<longleftrightarrow> slot_state_of (buffers m ! nat index) = Allocated)
       \<and> (fst (check_buffer_unused m index) = None
            \<longleftrightarrow> slot_state_of (buffers m ! nat index) = Free)
       \<and> (fst (check_buffer_in_use m index) = Some (runtime_error ''buffer is not in use'')
            \<longleftrightarrow> slot_state_of (buffers m ! nat index) = Free)
       \<and> (fst (check_buffer_in_use m index) = None
            \<longleftrightarrow> slot_state_of (buffers m ! nat index) = Allocated)
       \<and> snd (check_buffer_unused m index) = m
       \<and> snd (check_buffer_in_use m index) = m"
  using assms
  by (simp add: check_buffer_unused_def check_buffer_in_use_def slot_def slot_state_of_def)

theorem guards_signal_iff_witness:
  "fst (check_buffer_unused
          \<lparr>buffers = [buffer_wrapper_init,
                      \<lparr>data = 4096, frames = 512, channels = 2, sample_rate = 0\<rparr>]\<rparr> 1)
     = Some (runtime_error ''buffer already in use'')
   \<and> fst (check_buffer_in_use
          \<lparr>buffers = [buffer_wrapper_init,
                      \<lparr>data = 4096, frames = 512, channels = 2, sample_rate = 0\<rparr>]\<rparr> 1)
     = None
   \<and> slot_state_of \<lparr>data = 4096, frames = 512, channels = 2, sample_rate = 0\<rparr> = Allocated"
  using guards_signal_iff
          [of 1 "\<lparr>buffers = [buffer_wrapper_init,
                   \<lparr>data = 4096, frames = 512, channels = 2, sample_rate = 0\<rparr>]\<rparr>"]
  by (simp add: slot_state_of_def)

section \<open>Scatter writes\<close>

text \<open>What \<open>n\<close> iterations of the scatter loop leave in the storage.\<close>

lemma scatter_loop_frame:
  "p \<noteq> data b \<or> unat (frames b) \<le> j \<Longrightarrow>
   set_samples_scatter_loop cv b indices vals n h p j = h p j"
  by (induction n) (auto simp: Let_def write_sample_def word_less_nat_alt)

lemma scatter_loop_unnamed:
  "(\<forall>i<n. unat (indices i) \<noteq> j) \<Longrightarrow>
   set_samples_scatter_loop cv b indices vals n h (data b) j = h (data b) j"
  by (induction n) (auto simp: Let_def write_sample_def)

lemma scatter_loop_last:
  "i < n \<Longrightarrow> indices i < frames b \<Longrightarrow>
   (\<forall>i'. i < i' \<and> i' < n \<longrightarrow> indices i' \<noteq> indices i) \<Longrightarrow>
   set_samples_scatter_loop cv b indices vals n h (data b) (unat (indices i)) = cv (vals i)"
proof (induction n)
  case 0
  then show ?case by simp
next
  case (Suc n)
  show ?case
  proof (cases "i = n")
    case True
    with Suc.prems show ?thesis by (simp add: Let_def write_sample_def)
  next
    case False
    with Suc.prems have "i < n" by simp
    moreover from Suc.prems \<open>i < n\<close> have "unat (indices i) \<noteq> unat (indices n)"
      by (auto simp: word_unat_eq_iff)
    moreover from Suc.prems have "\<forall>i'. i < i' \<and> i' < n \<longrightarrow> indices i' \<noteq> indices i" by simp
    ultimately show ?thesis
      using Suc.IH Suc.prems(2) by (simp add: Let_def write_sample_def)
  qed
qed

text \<open>
  C8. The scatter \<open>set_samples\<close> writes \<open>values[i]\<close> at \<open>indices[i]\<close> only when
  \<open>indices[i] < frames_\<close>. Whatever the pairs are: no sample at or past \<open>frames_\<close> and
  no sample of another block changes; a sample that no pair with an index below
  \<open>frames_\<close> names keeps its value, so a pair whose index is at or past \<open>frames_\<close> is
  dropped and mutates nothing; and a pair with an index below \<open>frames_\<close> that no later
  pair overwrites leaves its converted value at its index.
\<close>

theorem scatter_writes_only_in_range:
  "(\<forall>p j. p \<noteq> data b \<or> unat (frames b) \<le> j \<longrightarrow>
        buffer_wrapper_set_samples_scatter cv b count indices vals h p j = h p j)
   \<and> (\<forall>j. (\<forall>i<unat count. indices i < frames b \<longrightarrow> unat (indices i) \<noteq> j) \<longrightarrow>
        buffer_wrapper_set_samples_scatter cv b count indices vals h (data b) j = h (data b) j)
   \<and> (\<forall>i<unat count. indices i < frames b \<and>
          (\<forall>i'. i < i' \<and> i' < unat count \<longrightarrow> indices i' \<noteq> indices i) \<longrightarrow>
        buffer_wrapper_set_samples_scatter cv b count indices vals h (data b) (unat (indices i))
          = cv (vals i))"
proof (intro conjI allI impI)
  fix p j assume "p \<noteq> data b \<or> unat (frames b) \<le> j"
  then show "buffer_wrapper_set_samples_scatter cv b count indices vals h p j = h p j"
    by (simp add: buffer_wrapper_set_samples_scatter_def scatter_loop_frame)
next
  fix j assume a: "\<forall>i<unat count. indices i < frames b \<longrightarrow> unat (indices i) \<noteq> j"
  show "buffer_wrapper_set_samples_scatter cv b count indices vals h (data b) j = h (data b) j"
  proof (cases "j < unat (frames b)")
    case True
    with a have "\<forall>i<unat count. unat (indices i) \<noteq> j"
      by (auto simp: word_less_nat_alt)
    then show ?thesis
      by (simp add: buffer_wrapper_set_samples_scatter_def scatter_loop_unnamed)
  next
    case False
    then show ?thesis
      by (simp add: buffer_wrapper_set_samples_scatter_def scatter_loop_frame)
  qed
next
  fix i
  assume "i < unat count"
    and "indices i < frames b \<and>
          (\<forall>i'. i < i' \<and> i' < unat count \<longrightarrow> indices i' \<noteq> indices i)"
  then show "buffer_wrapper_set_samples_scatter cv b count indices vals h (data b)
               (unat (indices i)) = cv (vals i)"
    by (simp add: buffer_wrapper_set_samples_scatter_def scatter_loop_last)
qed

theorem scatter_writes_only_in_range_witness:
  "buffer_wrapper_set_samples_scatter id
      \<lparr>data = 4096, frames = 4, channels = 1, sample_rate = 0\<rparr> 3
      (\<lambda>i. [2, 7, 2] ! i) (\<lambda>i. [10, 20, 30 :: int] ! i) (\<lambda>p i. 0) 4096 2 = 30
   \<and> buffer_wrapper_set_samples_scatter id
      \<lparr>data = 4096, frames = 4, channels = 1, sample_rate = 0\<rparr> 3
      (\<lambda>i. [2, 7, 2] ! i) (\<lambda>i. [10, 20, 30 :: int] ! i) (\<lambda>p i. 0) 4096 7 = 0
   \<and> buffer_wrapper_set_samples_scatter id
      \<lparr>data = 4096, frames = 4, channels = 1, sample_rate = 0\<rparr> 3
      (\<lambda>i. [2, 7, 2] ! i) (\<lambda>i. [10, 20, 30 :: int] ! i) (\<lambda>p i. 0) 4096 3 = 0"
proof -
  let ?b = "\<lparr>data = 4096, frames = 4, channels = 1, sample_rate = 0\<rparr>"
  let ?is = "\<lambda>i. [2, 7, 2 :: size_t] ! i"
  let ?vs = "\<lambda>i. [10, 20, 30 :: int] ! i"
  note t = scatter_writes_only_in_range [of ?b id 3 ?is ?vs "\<lambda>p i. 0"]
  have three: "\<And>i. i < (3::nat) \<Longrightarrow> i = 0 \<or> i = 1 \<or> i = 2" by arith
  from t have "unat (frames ?b) \<le> 7 \<longrightarrow>
      buffer_wrapper_set_samples_scatter id ?b 3 ?is ?vs (\<lambda>p i. 0) 4096 7 = 0"
    by simp
  then have a: "buffer_wrapper_set_samples_scatter id ?b 3 ?is ?vs (\<lambda>p i. 0) 4096 7 = 0"
    by simp
  from t have "(2::nat) < unat (3 :: uint) \<longrightarrow> ?is 2 < frames ?b \<and>
      (\<forall>i'. 2 < i' \<and> i' < unat (3 :: uint) \<longrightarrow> ?is i' \<noteq> ?is 2) \<longrightarrow>
      buffer_wrapper_set_samples_scatter id ?b 3 ?is ?vs (\<lambda>p i. 0) (data ?b) (unat (?is 2))
        = id (?vs 2)"
    by blast
  then have c: "buffer_wrapper_set_samples_scatter id ?b 3 ?is ?vs (\<lambda>p i. 0) 4096 2 = 30"
    by simp
  from t have "(\<forall>i<unat (3 :: uint). ?is i < frames ?b \<longrightarrow> unat (?is i) \<noteq> 3) \<longrightarrow>
      buffer_wrapper_set_samples_scatter id ?b 3 ?is ?vs (\<lambda>p i. 0) (data ?b) 3 = 0"
    by blast
  moreover have "\<forall>i<unat (3 :: uint). ?is i < frames ?b \<longrightarrow> unat (?is i) \<noteq> 3"
    by (auto dest!: three)
  ultimately have d: "buffer_wrapper_set_samples_scatter id ?b 3 ?is ?vs (\<lambda>p i. 0) 4096 3 = 0"
    by simp
  from a c d show ?thesis by simp
qed

section \<open>Zeroing a buffer\<close>

text \<open>
  C2, as the code has it. On an allocated buffer \<open>zero\<close> returns normally, sets the
  samples at the offsets below \<open>frames_\<close> to zero and leaves every other sample as it
  was: the count handed to \<open>zerovec\<close> is \<open>frames_\<close>, not \<open>frames_\<close> times \<open>channels_\<close>.
\<close>

theorem zero_fills_first_frames:
  assumes "data b \<noteq> 0"
  shows "fst (buffer_wrapper_zero b h) = None
       \<and> (\<forall>p j. snd (buffer_wrapper_zero b h) p j
                  = (if p = data b \<and> j < unat (frames b) then 0 else h p j))"
  using assms by (simp add: buffer_wrapper_zero_def zerovec_def)

theorem zero_fills_first_frames_witness:
  "data \<lparr>data = 4096, frames = 1, channels = 2, sample_rate = 0\<rparr> \<noteq> 0
   \<and> snd (buffer_wrapper_zero \<lparr>data = 4096, frames = 1, channels = 2, sample_rate = 0\<rparr>
            (\<lambda>p i. 5 :: int)) 4096 0 = 0
   \<and> snd (buffer_wrapper_zero \<lparr>data = 4096, frames = 1, channels = 2, sample_rate = 0\<rparr>
            (\<lambda>p i. 5 :: int)) 4096 1 = 5"
  using zero_fills_first_frames
          [of "\<lparr>data = 4096, frames = 1, channels = 2, sample_rate = 0\<rparr>" "\<lambda>p i. 5 :: int"]
  by simp

text \<open>
  C2 as claimed fails: a buffer of one frame and two channels stores two samples, and
  after \<open>zero\<close> the second one still holds what it held.
\<close>

theorem zero_leaves_second_channel_counterexample:
  "data \<lparr>data = 4096, frames = 1, channels = 2, sample_rate = 0\<rparr> \<noteq> 0
   \<and> fst (buffer_wrapper_zero \<lparr>data = 4096, frames = 1, channels = 2, sample_rate = 0\<rparr>
            (\<lambda>p i. 5 :: int)) = None
   \<and> (1 :: nat) < unat (frames \<lparr>data = 4096, frames = 1, channels = 2, sample_rate = 0\<rparr>)
                 * unat (channels \<lparr>data = 4096, frames = 1, channels = 2, sample_rate = 0\<rparr>)
   \<and> snd (buffer_wrapper_zero \<lparr>data = 4096, frames = 1, channels = 2, sample_rate = 0\<rparr>
            (\<lambda>p i. 5 :: int)) 4096 1 \<noteq> 0"
  by (simp add: buffer_wrapper_zero_def zerovec_def)

section \<open>Contiguous writes\<close>

text \<open>
  The storage after \<open>n\<close> iterations of the two contiguous loops, and the count the
  clamp computes.
\<close>

lemma contiguous_loop_eq:
  "set_samples_contiguous_loop cv b position vals n h p j =
     (if p = data b \<and> unat position \<le> j \<and> j < unat position + n
      then cv (vals (j - unat position)) else h p j)"
  by (induction n) (auto simp: write_sample_def less_Suc_eq)

lemma fill_loop_eq:
  "fill_samples_loop b position val n h p j =
     (if p = data b \<and> unat position \<le> j \<and> j < unat position + n then val else h p j)"
  by (induction n) (auto simp: write_sample_def)

lemma unat_uint_bound: "unat (count :: uint) < 2 ^ 32"
  using unsigned_less [of count, where 'a = nat] by simp

lemma unat_ucast_uint: "unat (ucast (count :: uint) :: size_t) = unat count"
proof -
  have "unat count < 2 ^ 64"
    using unat_uint_bound [of count] by simp
  then show ?thesis
    by (simp add: unsigned_ucast_eq take_bit_nat_eq_self)
qed

lemma unat_min_word: "unat (min (x :: 'a::len word) y) = min (unat x) (unat y)"
  by (simp add: min_def word_le_nat_alt)

lemma unat_clamped:
  fixes count :: uint and avail :: size_t
  shows "unat (ucast (min (ucast count :: size_t) avail) :: uint) = min (unat count) (unat avail)"
proof -
  have "min (unat count) (unat avail) < 2 ^ 32"
    using unat_uint_bound [of count] by simp
  then show ?thesis
    by (simp add: unsigned_ucast_eq [where 'c = 32] unat_min_word unat_ucast_uint
          take_bit_nat_eq_self)
qed

lemma contiguous_clamps_in_range:
  assumes "position \<le> frames b"
  shows "buffer_wrapper_set_samples_contiguous cv b position count vals h p j =
     (if p = data b \<and> unat position \<le> j
         \<and> j < unat position + min (unat count) (unat (frames b) - unat position)
      then cv (vals (j - unat position)) else h p j)"
  using assms
  by (simp add: buffer_wrapper_set_samples_contiguous_def Let_def contiguous_loop_eq
        unat_clamped unat_sub)

lemma fill_clamps_in_range:
  assumes "position \<le> frames b"
  shows "buffer_wrapper_fill_samples cv b position count v h p j =
     (if p = data b \<and> unat position \<le> j
         \<and> j < unat position + min (unat count) (unat (frames b) - unat position)
      then cv v else h p j)"
  using assms
  by (simp add: buffer_wrapper_fill_samples_def Let_def fill_loop_eq unat_clamped unat_sub)

lemma contiguous_loop_two:
  "set_samples_contiguous_loop cv b position vals 2 h =
     write_sample (write_sample h (data b) (unat position) (cv (vals 0)))
       (data b) (unat position + 1) (cv (vals 1))"
  by (simp add: numeral_2_eq_2)

lemma fill_loop_two:
  "fill_samples_loop b position val 2 h =
     write_sample (write_sample h (data b) (unat position) val) (data b) (unat position + 1) val"
  by (simp add: numeral_2_eq_2)

text \<open>
  C1 at a position past the end. With four frames, position 5 and count 2 the
  difference \<open>frames_ - position\<close> wraps to \<open>2^64 - 1\<close>, the minimum keeps the count 2,
  and both \<open>set_samples\<close> and \<open>fill_samples\<close> write the samples at offsets 5 and 6, past
  the four frames of the buffer, where the claim has an effective count of zero.
  (For a position up to \<open>frames_\<close> the clamp is the claimed one:
  \<open>contiguous_clamps_in_range\<close>, \<open>fill_clamps_in_range\<close>.)
\<close>

theorem contiguous_writes_past_frames:
  "buffer_wrapper_set_samples_contiguous id
      \<lparr>data = 4096, frames = 4, channels = 1, sample_rate = 0\<rparr> 5 2
      (\<lambda>i. [10, 20 :: int] ! i) (\<lambda>p i. 0) 4096 5 = 10
   \<and> buffer_wrapper_set_samples_contiguous id
      \<lparr>data = 4096, frames = 4, channels = 1, sample_rate = 0\<rparr> 5 2
      (\<lambda>i. [10, 20 :: int] ! i) (\<lambda>p i. 0) 4096 6 = 20
   \<and> buffer_wrapper_fill_samples id
      \<lparr>data = 4096, frames = 4, channels = 1, sample_rate = 0\<rparr> 5 2
      (1 :: int) (\<lambda>p i. 0) 4096 5 = 1
   \<and> buffer_wrapper_fill_samples id
      \<lparr>data = 4096, frames = 4, channels = 1, sample_rate = 0\<rparr> 5 2
      (1 :: int) (\<lambda>p i. 0) 4096 6 = 1
   \<and> min (ucast (2 :: uint)) (frames \<lparr>data = 4096, frames = 4, channels = 1, sample_rate = 0\<rparr> - 5)
       = (2 :: size_t)"
  by (simp add: buffer_wrapper_set_samples_contiguous_def buffer_wrapper_fill_samples_def
        Let_def write_sample_def contiguous_loop_two fill_loop_two)

section \<open>The contiguous write of the table\<close>

text \<open>
  C3 at an in-use slot. The contiguous \<open>buffer_manager::set_samples\<close> passes the guard
  and then calls \<open>set_samples(count, position, count, values)\<close>: four arguments, which
  neither overload of the buffer accepts, so nothing is written, where the buffer's own
  contiguous \<open>set_samples(position, count, values)\<close> writes the sample. The manager's
  \<open>fill_samples\<close>, which passes its three arguments on, does write.
\<close>

theorem manager_contiguous_matches_no_overload:
  "buffer_manager_set_samples_contiguous id
      \<lparr>buffers = [\<lparr>data = 4096, frames = 4, channels = 1, sample_rate = 0\<rparr>]\<rparr> 0 0 1
      (\<lambda>i. [10 :: int] ! i) (\<lambda>p i. 0)
     = (Some no_matching_function,
        \<lparr>buffers = [\<lparr>data = 4096, frames = 4, channels = 1, sample_rate = 0\<rparr>]\<rparr>,
        (\<lambda>p i. 0))
   \<and> buffer_wrapper_set_samples_contiguous id
      \<lparr>data = 4096, frames = 4, channels = 1, sample_rate = 0\<rparr> 0 1
      (\<lambda>i. [10 :: int] ! i) (\<lambda>p i. 0) 4096 0 = 10
   \<and> fst (buffer_manager_fill_samples id
      \<lparr>buffers = [\<lparr>data = 4096, frames = 4, channels = 1, sample_rate = 0\<rparr>]\<rparr> 0 0 1
      (10 :: int) (\<lambda>p i. 0)) = None
   \<and> snd (snd (buffer_manager_fill_samples id
      \<lparr>buffers = [\<lparr>data = 4096, frames = 4, channels = 1, sample_rate = 0\<rparr>]\<rparr> 0 0 1
      (10 :: int) (\<lambda>p i. 0))) 4096 0 = 10"
  by (simp add: buffer_manager_set_samples_contiguous_def buffer_manager_fill_samples_def
        check_buffer_in_use_def slot_def
        buffer_wrapper_set_samples_contiguous_def buffer_wrapper_fill_samples_def
        Let_def write_sample_def)

section \<open>Alignment of the allocated blocks\<close>

text \<open>
  The padding of the fallback: adding \<open>16 - (x AND 15)\<close> to an \<open>x\<close> that is not a
  multiple of 16 gives one, and the padding is at most 15 bytes.
\<close>

lemma low4: "(x :: 64 word) AND 15 = x mod 16"
proof -
  have "x AND 15 = take_bit 4 x"
    by (simp add: take_bit_eq_mask mask_numeral)
  then show ?thesis by (simp add: take_bit_eq_mod)
qed

lemma pad_dvd:
  fixes x :: "64 word"
  shows "16 dvd x + (if x AND 15 = 0 then 0 else 16 - (x AND 15))"
proof -
  have split: "x div 16 * 16 + x mod 16 = x"
    by (rule div_mult_mod_eq)
  show ?thesis
  proof (cases "x mod 16 = 0")
    case True
    with split have "x = x div 16 * 16" by simp
    then have "16 dvd x" by (metis dvd_triv_right)
    with True show ?thesis by (simp add: low4)
  next
    case False
    have "x + (16 - x mod 16) = (x div 16 * 16 + x mod 16) + (16 - x mod 16)"
      by (simp only: split)
    also have "\<dots> = 16 * (x div 16 + 1)"
      by (simp add: algebra_simps)
    finally have "16 dvd x + (16 - x mod 16)"
      by (metis dvd_triv_left)
    with False show ?thesis by (simp add: low4)
  qed
qed

lemma unat_aligned16:
  fixes r :: "64 word"
  assumes "16 dvd r"
  shows "16 dvd unat r"
proof -
  from assms have "2 ^ 4 dvd r" by simp
  then have "take_bit 4 r = 0" by (simp only: take_bit_eq_0_iff)
  then have "unat (take_bit 4 r) = 0" by simp
  then have "take_bit 4 (unat r) = 0" by (simp only: unsigned_take_bit_eq)
  then have "unat r mod 2 ^ 4 = 0" by (simp only: take_bit_eq_mod)
  then show ?thesis by (simp add: mod_eq_0_iff_dvd)
qed

lemma pad_bounds:
  fixes x :: "64 word"
  shows "unat (if x AND 15 = 0 then 0 else 16 - (x AND 15)) \<le> 15"
proof (cases "x AND 15 = 0")
  case True then show ?thesis by simp
next
  case False
  have le: "x AND 15 \<le> 15" by (rule word_and_le1)
  then have "unat (x AND 15) \<le> 15" by (simp add: word_le_nat_alt)
  moreover have "unat (x AND 15) \<noteq> 0" using False by (simp add: unat_eq_0)
  moreover have "unat (16 - (x AND 15)) = 16 - unat (x AND 15)"
    using le by (subst unat_sub) (auto simp: word_le_nat_alt)
  ultimately show ?thesis using False by simp
qed

lemma calloc_aligned_same_pointer:
  "fst (calloc_aligned malloc_aligned memset nbytes st) = fst (malloc_aligned nbytes st)"
  by (simp add: calloc_aligned_def split: prod.splits sum.splits)

lemma fallback_pointer:
  assumes "vec = malloc (nbytes + (VECTORALIGNMENT div 8 - 1) + sizeof_void_ptr)"
  shows "fst (malloc_aligned_fallback malloc nbytes st) =
     Inr (if vec \<noteq> 0
          then (vec + 8) + (if (vec + 8) AND 15 = 0 then 0 else 16 - ((vec + 8) AND 15))
          else 0)"
  unfolding malloc_aligned_fallback_def assms [symmetric] Let_def
  by (simp add: VECTORALIGNMENT_def sizeof_void_ptr_def)

lemma fallback_pointer_aligned:
  "\<exists>ret. fst (malloc_aligned_fallback malloc nbytes st) = Inr ret \<and> 16 dvd unat ret"
proof -
  define vec where "vec = malloc (nbytes + (VECTORALIGNMENT div 8 - 1) + sizeof_void_ptr)"
  define x where "x = vec + 8"
  have "16 dvd unat (x + (if x AND 15 = 0 then 0 else 16 - (x AND 15)))"
    by (rule unat_aligned16) (rule pad_dvd)
  then have "16 dvd unat (if vec \<noteq> 0
          then (vec + 8) + (if (vec + 8) AND 15 = 0 then 0 else 16 - ((vec + 8) AND 15))
          else 0)"
    unfolding x_def by simp
  then show ?thesis
    unfolding fallback_pointer [of vec malloc nbytes st, OF vec_def] by blast
qed

text \<open>
  C6. Every pointer \<open>malloc_aligned\<close> returns, and \<open>calloc_aligned\<close> returns the same
  pointer, is a multiple of the backend's alignment: of \<open>malloc_memory_alignment = 64\<close>
  on the \<open>posix_memalign\<close> backend, given that \<open>posix_memalign\<close> keeps its contract (on
  status 0 the stored pointer is a multiple of the alignment it was asked for), and of
  \<open>VECTORALIGNMENT / 8 = 16\<close> on the manual fallback, whatever \<open>malloc\<close> returns. The
  TBB backend has no alignment constant in this file; it returns the allocator's pointer
  as it is, so it keeps whatever alignment \<open>cache_line\<close> the allocator guarantees.
\<close>

theorem malloc_aligned_alignment:
  assumes posix: "\<And>al n p. posix_memalign al n = (0, p) \<Longrightarrow> unat al dvd unat p"
      and tbb: "\<And>n p. allocate n = Inr p \<Longrightarrow> cache_line dvd unat p"
  shows "(\<exists>ret. fst (malloc_aligned_posix posix_memalign nbytes st) = Inr ret
            \<and> fst (calloc_aligned (malloc_aligned_posix posix_memalign) memset nbytes st) = Inr ret
            \<and> unat malloc_memory_alignment dvd unat ret)
       \<and> (\<exists>ret. fst (malloc_aligned_fallback malloc nbytes st) = Inr ret
            \<and> fst (calloc_aligned (malloc_aligned_fallback malloc) memset nbytes st) = Inr ret
            \<and> unat (VECTORALIGNMENT div 8) dvd unat ret)
       \<and> (\<forall>ret. fst (malloc_aligned_tbb allocate nbytes st) = Inr ret \<longrightarrow>
            fst (calloc_aligned (malloc_aligned_tbb allocate) memset nbytes st) = Inr ret
            \<and> cache_line dvd unat ret)
       \<and> unat malloc_memory_alignment = 64 \<and> unat (VECTORALIGNMENT div 8) = 16"
proof (intro conjI)
  obtain status p where pm: "posix_memalign malloc_memory_alignment nbytes = (status, p)"
    by (cases "posix_memalign malloc_memory_alignment nbytes")
  show "\<exists>ret. fst (malloc_aligned_posix posix_memalign nbytes st) = Inr ret
            \<and> fst (calloc_aligned (malloc_aligned_posix posix_memalign) memset nbytes st) = Inr ret
            \<and> unat malloc_memory_alignment dvd unat ret"
  proof (cases "status = 0")
    case True
    with pm posix have "unat malloc_memory_alignment dvd unat p" by simp
    with pm True show ?thesis
      by (simp add: calloc_aligned_same_pointer malloc_aligned_posix_def)
  next
    case False
    with pm show ?thesis
      by (simp add: calloc_aligned_same_pointer malloc_aligned_posix_def)
  qed
next
  have "unat (VECTORALIGNMENT div 8) = 16" by (simp add: VECTORALIGNMENT_def)
  with fallback_pointer_aligned [of malloc nbytes st]
  show "\<exists>ret. fst (malloc_aligned_fallback malloc nbytes st) = Inr ret
            \<and> fst (calloc_aligned (malloc_aligned_fallback malloc) memset nbytes st) = Inr ret
            \<and> unat (VECTORALIGNMENT div 8) dvd unat ret"
    by (auto simp: calloc_aligned_same_pointer)
next
  show "\<forall>ret. fst (malloc_aligned_tbb allocate nbytes st) = Inr ret \<longrightarrow>
            fst (calloc_aligned (malloc_aligned_tbb allocate) memset nbytes st) = Inr ret
            \<and> cache_line dvd unat ret"
    using tbb by (auto simp: calloc_aligned_same_pointer malloc_aligned_tbb_def split: sum.splits)
next
  show "unat malloc_memory_alignment = 64" by (simp add: malloc_memory_alignment_def)
next
  show "unat (VECTORALIGNMENT div 8) = 16" by (simp add: VECTORALIGNMENT_def)
qed

theorem malloc_aligned_alignment_witness:
  "fst (malloc_aligned_posix (\<lambda>al n. (0, al)) 100 \<lparr>live = {}, cells = (\<lambda>a. 0)\<rparr>) = Inr 64
   \<and> 64 dvd unat (64 :: ptr)
   \<and> fst (malloc_aligned_fallback (\<lambda>n. 4097) 100 \<lparr>live = {}, cells = (\<lambda>a. 0)\<rparr>) = Inr 4112
   \<and> 16 dvd unat (4112 :: ptr)
   \<and> fst (malloc_aligned_tbb (\<lambda>n. Inr 256) 100 \<lparr>live = {}, cells = (\<lambda>a. 0)\<rparr>) = Inr 256
   \<and> 128 dvd unat (256 :: ptr)"
proof -
  have posix: "\<And>al n p. (\<lambda>al n. (0 :: int, al)) al n = (0, p) \<Longrightarrow> unat al dvd unat (p :: ptr)"
    by simp
  have tbb: "\<And>n p. (\<lambda>n. Inr 256 :: failure + ptr) n = Inr p \<Longrightarrow> (128 :: nat) dvd unat p"
    by auto
  note t = malloc_aligned_alignment [OF posix tbb,
      where nbytes = 100 and st = "\<lparr>live = {}, cells = (\<lambda>a. 0)\<rparr>" and malloc = "\<lambda>n. 4097"]
  show ?thesis
    using t
    by (simp add: malloc_aligned_posix_def malloc_memory_alignment_def malloc_aligned_tbb_def
          malloc_aligned_fallback_def VECTORALIGNMENT_def sizeof_void_ptr_def)
qed

section \<open>The bookkeeping of the manual fallback\<close>

lemma fallback_success:
  assumes vec: "malloc (nbytes + (VECTORALIGNMENT div 8 - 1) + sizeof_void_ptr) = vec"
      and nz: "vec \<noteq> 0"
  shows "malloc_aligned_fallback malloc nbytes st =
     (Inr ((vec + 8) + (if (vec + 8) AND 15 = 0 then 0 else 16 - ((vec + 8) AND 15))),
      st\<lparr>live := insert vec (live st),
         cells := (cells st)
           ((vec + 8) + (if (vec + 8) AND 15 = 0 then 0 else 16 - ((vec + 8) AND 15)) - 8 := vec)\<rparr>)"
  unfolding malloc_aligned_fallback_def vec Let_def
  using nz by (simp add: VECTORALIGNMENT_def sizeof_void_ptr_def)

text \<open>
  C7. When \<open>malloc\<close> returns a block \<open>vec\<close> that is not null, the fallback
  \<open>malloc_aligned\<close> returns a pointer \<open>ret\<close> and has stored \<open>vec\<close> in the pointer-sized
  cell that ends where \<open>ret\<close> starts; that cell starts at most 15 bytes into the block
  and \<open>ret\<close> at most 23, so the cell and the \<open>nbytes\<close> after \<open>ret\<close> lie inside the
  \<open>nbytes + 23\<close> bytes requested. \<open>free_aligned\<close> on \<open>ret\<close> reads \<open>vec\<close> back from that
  cell and releases exactly that block, after which the live blocks are those before
  the allocation.
\<close>

theorem fallback_store_recover:
  assumes vec: "malloc (nbytes + (VECTORALIGNMENT div 8 - 1) + sizeof_void_ptr) = vec"
      and nz: "vec \<noteq> 0"
      and fresh: "vec \<notin> live st"
  shows "\<exists>ret st'. malloc_aligned_fallback malloc nbytes st = (Inr ret, st')
           \<and> cells st' (ret - sizeof_void_ptr) = vec
           \<and> unat (ret - sizeof_void_ptr - vec) \<le> 15
           \<and> unat (ret - vec) \<le> 23
           \<and> free_aligned_fallback ret st' = (None, st'\<lparr>live := live st' - {vec}\<rparr>)
           \<and> live (snd (free_aligned_fallback ret st')) = live st"
proof -
  define pad where "pad = (if (vec + 8) AND 15 = 0 then 0 else 16 - ((vec + 8) AND 15))"
  define ret where "ret = (vec + 8) + pad"
  define st' where "st' = st\<lparr>live := insert vec (live st), cells := (cells st)(ret - 8 := vec)\<rparr>"
  have res: "malloc_aligned_fallback malloc nbytes st = (Inr ret, st')"
    unfolding ret_def st'_def pad_def by (rule fallback_success [of malloc nbytes vec st, OF vec nz])
  have pad15: "unat pad \<le> 15"
    unfolding pad_def by (rule pad_bounds)
  have cell: "cells st' (ret - sizeof_void_ptr) = vec"
    by (simp add: st'_def sizeof_void_ptr_def)
  have d1: "ret - sizeof_void_ptr - vec = pad"
    by (simp add: ret_def sizeof_void_ptr_def)
  have d2: "ret - vec = 8 + pad"
    by (simp add: ret_def)
  have "unat (8 + pad) = 8 + unat pad"
    using pad15 by (simp add: unat_word_ariths)
  with pad15 d2 have b2: "unat (ret - vec) \<le> 23" by simp
  have fr: "free_aligned_fallback ret st' = (None, st'\<lparr>live := live st' - {vec}\<rparr>)"
    using nz cell by (simp add: free_aligned_fallback_def c_free_def Let_def) (simp add: st'_def)
  have lv: "live (snd (free_aligned_fallback ret st')) = live st"
    using fresh by (simp add: fr) (simp add: st'_def)
  from res cell d1 pad15 b2 fr lv show ?thesis by auto
qed

theorem fallback_store_recover_witness:
  "malloc_aligned_fallback (\<lambda>n. 4097) 100 \<lparr>live = {}, cells = (\<lambda>a. 0)\<rparr>
     = (Inr 4112, \<lparr>live = {4097}, cells = (\<lambda>a. 0)(4104 := 4097)\<rparr>)
   \<and> free_aligned_fallback 4112 \<lparr>live = {4097}, cells = (\<lambda>a. 0)(4104 := 4097)\<rparr>
     = (None, \<lparr>live = {}, cells = (\<lambda>a. 0)(4104 := 4097)\<rparr>)"
proof -
  have a: "(\<lambda>n. 4097 :: ptr) ((100 :: size_t) + (VECTORALIGNMENT div 8 - 1) + sizeof_void_ptr) = 4097"
    by simp
  have b: "(4097 :: ptr) \<noteq> 0" by simp
  have c: "(4097 :: ptr) \<notin> live \<lparr>live = {}, cells = (\<lambda>a. 0)\<rparr>" by simp
  from fallback_store_recover
         [of "\<lambda>n. 4097" 100 4097 "\<lparr>live = {}, cells = (\<lambda>a. 0)\<rparr>", OF a b c]
  obtain ret st' where
    r: "malloc_aligned_fallback (\<lambda>n. 4097) 100 \<lparr>live = {}, cells = (\<lambda>a. 0)\<rparr> = (Inr ret, st')"
    and f: "free_aligned_fallback ret st' = (None, st'\<lparr>live := live st' - {4097}\<rparr>)"
    by blast
  have e: "malloc_aligned_fallback (\<lambda>n. 4097) 100 \<lparr>live = {}, cells = (\<lambda>a. 0)\<rparr>
     = (Inr 4112, \<lparr>live = {4097}, cells = (\<lambda>a. 0)(4104 := 4097)\<rparr>)"
    by (simp add: malloc_aligned_fallback_def VECTORALIGNMENT_def sizeof_void_ptr_def)
  with r have "ret = 4112" and "st' = \<lparr>live = {4097}, cells = (\<lambda>a. 0)(4104 := 4097)\<rparr>"
    by simp_all
  with f e show ?thesis by simp
qed

section \<open>How the backends signal failure\<close>

text \<open>
  The backends on \<open>posix_memalign\<close> and on \<open>malloc\<close> always return, with a null pointer
  when the platform call fails; the TBB backend passes on what the allocator throws.
\<close>

lemma posix_never_raises:
  "\<exists>p. fst (malloc_aligned_posix posix_memalign nbytes st) = Inr p"
  by (simp add: malloc_aligned_posix_def split: prod.splits)

lemma fallback_never_raises:
  "\<exists>p. fst (malloc_aligned_fallback malloc nbytes st) = Inr p"
  by (simp add: malloc_aligned_fallback_def Let_def)

lemma tbb_propagates:
  "allocate nbytes = Inl e \<Longrightarrow> malloc_aligned_tbb allocate nbytes st = (Inl e, st)"
  by (simp add: malloc_aligned_tbb_def)

text \<open>
  C4 on a failing allocation of 1024 bytes. Where \<open>posix_memalign\<close> answers
  \<open>ENOMEM\<close> (12) and where \<open>malloc\<close> answers null, \<open>malloc_aligned\<close> returns the null
  pointer; where the TBB allocator throws \<open>std::bad_alloc\<close>, \<open>malloc_aligned\<close> ends
  with that exception instead of returning null.
\<close>

theorem tbb_backend_raises:
  "fst (malloc_aligned_tbb (\<lambda>n. Inl bad_alloc) 1024 \<lparr>live = {}, cells = (\<lambda>a. 0)\<rparr>)
     = Inl bad_alloc
   \<and> fst (malloc_aligned_posix (\<lambda>al n. (12, 0)) 1024 \<lparr>live = {}, cells = (\<lambda>a. 0)\<rparr>)
     = Inr 0
   \<and> fst (malloc_aligned_fallback (\<lambda>n. 0) 1024 \<lparr>live = {}, cells = (\<lambda>a. 0)\<rparr>)
     = Inr 0"
  by (simp add: malloc_aligned_tbb_def malloc_aligned_posix_def malloc_aligned_fallback_def)

end
